theory Spec2Isabelle
  imports Main
begin

section \<open>JSON values and the JavaScript operations the script applies to them\<close>

text \<open>
  The script \<^verbatim>\<open>example-naver-option.js\<close> reads a product record that the commerce API
  returned as JSON and prints views of its option data. The values it handles are the
  values \<^verbatim>\<open>JSON.parse\<close> produces, together with \<^verbatim>\<open>undefined\<close>, which is what reading a
  missing property gives. An object is the list of its own properties; the first binding
  of a key is the property. A string is the list of its code units, and its length their
  number. Numbers are integers: identifiers, stock quantities and input limits are integer
  literals, and for the safe integers (magnitude below \<open>2 ^ 53\<close>) the decimal digits are
  the text JavaScript prints. Fractions and larger numbers are not part of the data model.
\<close>

datatype jsval =
    JUndefined
  | JNull
  | JBool bool
  | JNum int
  | JStr string
  | JArr "jsval list"
  | JObj "(string \<times> jsval) list"

text \<open>
  What the script can catch: a \<^verbatim>\<open>TypeError\<close> object raised by the language itself, with
  its message in the wording of Node's engine, or whatever value the API client throws or
  rejects with. That is usually an \<^verbatim>\<open>Error\<close> object, an object with a \<^verbatim>\<open>message\<close>
  property, but JavaScript lets any value be thrown, \<^verbatim>\<open>null\<close> and \<^verbatim>\<open>undefined\<close>
  included.
\<close>

datatype error = TypeError string | Thrown jsval

text \<open>The condition of \<^verbatim>\<open>if (v)\<close>, \<^verbatim>\<open>!v\<close>, \<^verbatim>\<open>v && w\<close> and \<^verbatim>\<open>v || w\<close>.\<close>

fun truthy :: "jsval \<Rightarrow> bool" where
  "truthy JUndefined = False"
| "truthy JNull = False"
| "truthy (JBool b) = b"
| "truthy (JNum n) = (n \<noteq> 0)"
| "truthy (JStr s) = (s \<noteq> [])"
| "truthy (JArr xs) = True"
| "truthy (JObj ps) = True"

fun nullish :: "jsval \<Rightarrow> bool" where
  "nullish JUndefined = True"
| "nullish JNull = True"
| "nullish v = False"

text \<open>
  \<^verbatim>\<open>v.k\<close> for a value that is neither \<^verbatim>\<open>null\<close> nor \<^verbatim>\<open>undefined\<close>. The script reads data
  properties by fixed names only; of the properties an array or a string has by itself,
  \<^verbatim>\<open>length\<close> is the one among them.
\<close>

fun own :: "jsval \<Rightarrow> string \<Rightarrow> jsval" where
  "own (JObj ps) k = (case map_of ps k of Some v \<Rightarrow> v | None \<Rightarrow> JUndefined)"
| "own (JArr xs) k = (if k = ''length'' then JNum (int (length xs)) else JUndefined)"
| "own (JStr s) k = (if k = ''length'' then JNum (int (length s)) else JUndefined)"
| "own v k = JUndefined"

text \<open>\<^verbatim>\<open>v.k\<close> in general: reading a property of \<^verbatim>\<open>null\<close> or \<^verbatim>\<open>undefined\<close> throws.\<close>

definition quoted :: "string \<Rightarrow> string" where
  "quoted k = CHR 0x27 # k @ [CHR 0x27]"

definition get :: "jsval \<Rightarrow> string \<Rightarrow> error + jsval" where
  "get v k =
     (if v = JUndefined
      then Inl (TypeError (''Cannot read properties of undefined (reading '' @ quoted k @ '')''))
      else if v = JNull
      then Inl (TypeError (''Cannot read properties of null (reading '' @ quoted k @ '')''))
      else Inr (own v k))"

text \<open>
  \<^verbatim>\<open>error.message\<close> in the \<^verbatim>\<open>catch\<close> clause (line 102): a property read like any other,
  which itself throws when the value caught is \<^verbatim>\<open>null\<close> or \<^verbatim>\<open>undefined\<close>.
\<close>

fun message :: "error \<Rightarrow> error + jsval" where
  "message (TypeError m) = Inr (JStr m)"
| "message (Thrown v) = get v ''message''"

subsection \<open>Conversion to string\<close>

fun digits :: "nat \<Rightarrow> string" where
  "digits n =
     (if n < 10 then [''0123456789'' ! n]
      else digits (n div 10) @ [''0123456789'' ! (n mod 10)])"

declare digits.simps [simp del]

definition number_string :: "int \<Rightarrow> string" where
  "number_string i = (if i < 0 then CHR ''-'' # digits (nat (- i)) else digits (nat i))"

text \<open>The first error of a left-to-right evaluation, or all the results.\<close>

fun collect :: "(error + 'a) list \<Rightarrow> error + 'a list" where
  "collect [] = Inr []"
| "collect (r # rs) =
     (case r of
        Inl e \<Rightarrow> Inl e
      | Inr x \<Rightarrow> (case collect rs of Inl e \<Rightarrow> Inl e | Inr xs \<Rightarrow> Inr (x # xs)))"

fun intercalate :: "string \<Rightarrow> string list \<Rightarrow> string" where
  "intercalate sep [] = []"
| "intercalate sep [s] = s"
| "intercalate sep (s # t # ss) = s @ sep @ intercalate sep (t # ss)"

text \<open>
  \<^verbatim>\<open>String(v)\<close>, the conversion a template literal applies to each \<^verbatim>\<open>${...}\<close>. An array
  converts as \<^verbatim>\<open>join(",")\<close>, in which \<^verbatim>\<open>null\<close> and \<^verbatim>\<open>undefined\<close> elements are empty. An
  object converts through the \<^verbatim>\<open>toString\<close> it inherits; an own property of that name is
  data, not a function, and then the conversion throws.
\<close>

fun to_string :: "jsval \<Rightarrow> error + string" where
  "to_string JUndefined = Inr ''undefined''"
| "to_string JNull = Inr ''null''"
| "to_string (JBool b) = Inr (if b then ''true'' else ''false'')"
| "to_string (JNum n) = Inr (number_string n)"
| "to_string (JStr s) = Inr s"
| "to_string (JArr xs) =
     (case collect (map (\<lambda>x. if nullish x then Inr [] else to_string x) xs) of
        Inl e \<Rightarrow> Inl e
      | Inr ss \<Rightarrow> Inr (intercalate '','' ss))"
| "to_string (JObj ps) =
     (case map_of ps ''toString'' of
        None \<Rightarrow> Inr ''[object Object]''
      | Some f \<Rightarrow> Inl (TypeError ''Cannot convert object to primitive value''))"

text \<open>
  \<^verbatim>\<open>v.join(sep)\<close>: the method is read first, which throws on \<^verbatim>\<open>null\<close> and
  \<^verbatim>\<open>undefined\<close>; only an array has it, and calling what is not a function throws.
\<close>

definition join :: "jsval \<Rightarrow> string \<Rightarrow> error + string" where
  "join v sep =
     (case get v ''join'' of
        Inl e \<Rightarrow> Inl e
      | Inr m \<Rightarrow>
          (case v of
             JArr xs \<Rightarrow>
               (case collect (map (\<lambda>x. if nullish x then Inr [] else to_string x) xs) of
                  Inl e \<Rightarrow> Inl e
                | Inr ss \<Rightarrow> Inr (intercalate sep ss))
           | _ \<Rightarrow> Inl (TypeError ''groupNames.join is not a function'')))"

subsection \<open>Comparison with zero\<close>

text \<open>
  \<^verbatim>\<open>v > 0\<close> converts \<^verbatim>\<open>v\<close> to a number first: \<^verbatim>\<open>undefined\<close> is \<^verbatim>\<open>NaN\<close>, \<^verbatim>\<open>null\<close> is 0,
  \<^verbatim>\<open>true\<close> is 1, an array or an object goes through its string, and a string is read by
  the grammar of numeric strings: white space around it is dropped, the empty string is 0,
  and what remains is \<^verbatim>\<open>Infinity\<close> or a decimal literal (digits with an optional
  fraction and exponent) with an optional sign, or an unsigned binary, octal or
  hexadecimal literal. Any other text is \<^verbatim>\<open>NaN\<close>, which is not greater than zero.
\<close>

definition white_space :: "char \<Rightarrow> bool" where
  "white_space c =
     (c \<in> set [CHR 0x09, CHR 0x0A, CHR 0x0B, CHR 0x0C, CHR 0x0D, CHR 0x20, CHR 0xA0])"

definition trim :: "string \<Rightarrow> string" where
  "trim s = rev (dropWhile white_space (rev (dropWhile white_space s)))"

definition is_digit :: "char \<Rightarrow> bool" where
  "is_digit c = (c \<in> set ''0123456789'')"

definition digits_value :: "string \<Rightarrow> int" where
  "digits_value ds = foldl (\<lambda>a c. 10 * a + (of_char c - 48)) 0 ds"

definition signed_digits :: "string \<Rightarrow> int option" where
  "signed_digits ds =
     (case ds of
        [] \<Rightarrow> None
      | d # r \<Rightarrow>
          if d = CHR ''-'' then
            (if r \<noteq> [] \<and> list_all is_digit r then Some (- digits_value r) else None)
          else if d = CHR ''+'' then
            (if r \<noteq> [] \<and> list_all is_digit r then Some (digits_value r) else None)
          else if list_all is_digit ds then Some (digits_value ds)
          else None)"

text \<open>What may follow the digits of a decimal literal: nothing, or an exponent.\<close>

definition exponent_part :: "string \<Rightarrow> int option" where
  "exponent_part r =
     (case r of
        [] \<Rightarrow> Some 0
      | c # ds \<Rightarrow> if c = CHR ''e'' \<or> c = CHR ''E'' then signed_digits ds else None)"

text \<open>
  An unsigned decimal literal as a pair \<open>(m, e)\<close> standing for \<open>m * 10 ^ e\<close>:
  \<^verbatim>\<open>12\<close>, \<^verbatim>\<open>12.\<close>, \<^verbatim>\<open>12.5\<close>, \<^verbatim>\<open>.5\<close>, each with an optional exponent.
\<close>

definition unsigned_decimal :: "string \<Rightarrow> (int \<times> int) option" where
  "unsigned_decimal s =
     (let ip = takeWhile is_digit s; r = dropWhile is_digit s in
        case r of
          [] \<Rightarrow> if ip = [] then None else Some (digits_value ip, 0)
        | c # r1 \<Rightarrow>
            if c = CHR ''.'' then
              (let fp = takeWhile is_digit r1; r2 = dropWhile is_digit r1 in
                 if ip = [] \<and> fp = [] then None
                 else (case exponent_part r2 of
                         None \<Rightarrow> None
                       | Some e \<Rightarrow> Some (digits_value (ip @ fp), e - int (length fp))))
            else if ip = [] then None
            else (case exponent_part r of
                    None \<Rightarrow> None
                  | Some e \<Rightarrow> Some (digits_value ip, e)))"

text \<open>
  The literal's value is rounded to the nearest double, ties to even: it becomes zero
  exactly when it is at most \<open>2 ^ - 1075\<close>, half the smallest positive double.
\<close>

definition rounds_above_zero :: "int \<Rightarrow> int \<Rightarrow> bool" where
  "rounds_above_zero m e = (0 < m \<and> (0 \<le> e \<or> 10 ^ nat (- e) < m * 2 ^ 1075))"

definition unsigned_positive :: "string \<Rightarrow> bool" where
  "unsigned_positive u =
     (u = ''Infinity'' \<or>
      (case unsigned_decimal u of None \<Rightarrow> False | Some (m, e) \<Rightarrow> rounds_above_zero m e))"

text \<open>
  \<^verbatim>\<open>0b\<close>, \<^verbatim>\<open>0o\<close> and \<^verbatim>\<open>0x\<close> literals: whether the text has such a prefix, and then
  whether it is a literal greater than zero.
\<close>

definition radix_literal :: "string \<Rightarrow> bool option" where
  "radix_literal t =
     (case t of
        z # x # ds \<Rightarrow>
          if z \<noteq> CHR ''0'' then None
          else if x = CHR ''b'' \<or> x = CHR ''B'' then
            Some (ds \<noteq> [] \<and> list_all (\<lambda>c. c \<in> set ''01'') ds \<and> list_ex (\<lambda>c. c \<noteq> CHR ''0'') ds)
          else if x = CHR ''o'' \<or> x = CHR ''O'' then
            Some (ds \<noteq> [] \<and> list_all (\<lambda>c. c \<in> set ''01234567'') ds
                  \<and> list_ex (\<lambda>c. c \<noteq> CHR ''0'') ds)
          else if x = CHR ''x'' \<or> x = CHR ''X'' then
            Some (ds \<noteq> [] \<and> list_all (\<lambda>c. c \<in> set ''0123456789abcdefABCDEF'') ds
                  \<and> list_ex (\<lambda>c. c \<noteq> CHR ''0'') ds)
          else None
      | _ \<Rightarrow> None)"

definition string_gt_zero :: "string \<Rightarrow> bool" where
  "string_gt_zero s =
     (let t = trim s in
        case radix_literal t of
          Some b \<Rightarrow> b
        | None \<Rightarrow>
            (case t of
               [] \<Rightarrow> False
             | c # r \<Rightarrow>
                 if c = CHR ''-'' then False
                 else if c = CHR ''+'' then unsigned_positive r
                 else unsigned_positive t))"

fun gt_zero :: "jsval \<Rightarrow> error + bool" where
  "gt_zero JUndefined = Inr False"
| "gt_zero JNull = Inr False"
| "gt_zero (JBool b) = Inr b"
| "gt_zero (JNum n) = Inr (0 < n)"
| "gt_zero (JStr s) = Inr (string_gt_zero s)"
| "gt_zero (JArr xs) =
     (case to_string (JArr xs) of Inl e \<Rightarrow> Inl e | Inr s \<Rightarrow> Inr (string_gt_zero s))"
| "gt_zero (JObj ps) =
     (case to_string (JObj ps) of Inl e \<Rightarrow> Inl e | Inr s \<Rightarrow> Inr False)"

section \<open>The console and the API client\<close>

text \<open>
  Every \<^verbatim>\<open>console.log\<close> and \<^verbatim>\<open>console.error\<close> of the script prints a fixed Korean
  template; a constructor below stands for one template and carries the strings
  interpolated into it, in the template's order. \<open>Json v\<close> is the text
  \<^verbatim>\<open>JSON.stringify(v, null, 2)\<close>.
\<close>

datatype printed =
    ConfigMissing
  | Start string
  | NotFound
  | ProductName string
  | NoOptionsNotice
  | RawHeader
  | Json jsval
  | ResultsHeader
  | SimpleHeader
  | SimpleEntry string string string
  | CombinationHeader
  | GroupNames string
  | CombinationEntry string string string
  | CustomHeader
  | CustomEntry string string
  | StandardHeader
  | StandardEntry string string
  | BuiltinHeader
  | Caught jsval

datatype line = Log printed | Err printed

text \<open>
  The client class \<^verbatim>\<open>NaverCommerceAPI\<close> is imported from a module outside this file. The
  script uses its constructor and two methods; each may throw (the asynchronous one by
  rejecting), so each returns an error or a value. The constructor is a parameter of the
  script's model.
\<close>

record api =
  getChannelProductDetail :: "string \<Rightarrow> error + jsval"
  parseOptionInfo :: "jsval \<Rightarrow> string \<Rightarrow> error + jsval"

datatype call =
    CallNew string string
  | CallDetail string
  | CallParse jsval string

text \<open>What a block of statements prints, and the error it throws if it does not finish.\<close>

type_synonym effect = "line list \<times> error option"

fun then_do :: "effect \<Rightarrow> effect \<Rightarrow> effect" where
  "then_do (ls, Some e) k = (ls, Some e)"
| "then_do (ls, None) (ls', r) = (ls @ ls', r)"

text \<open>\<^verbatim>\<open>if (c) { body }\<close>, where evaluating the condition may throw.\<close>

fun if_then :: "error + bool \<Rightarrow> effect \<Rightarrow> effect" where
  "if_then (Inl e) body = ([], Some e)"
| "if_then (Inr b) body = (if b then body else ([], None))"

text \<open>\<^verbatim>\<open>xs.forEach(x => console.log(...))\<close>: one line per element, up to the first throw.\<close>

fun for_each :: "(jsval \<Rightarrow> error + printed) \<Rightarrow> jsval list \<Rightarrow> effect" where
  "for_each f [] = ([], None)"
| "for_each f (x # xs) =
     (case f x of
        Inl e \<Rightarrow> ([], Some e)
      | Inr m \<Rightarrow> then_do ([Log m], None) (for_each f xs))"

definition forEach :: "string \<Rightarrow> jsval \<Rightarrow> (jsval \<Rightarrow> error + printed) \<Rightarrow> effect" where
  "forEach path v f =
     (case get v ''forEach'' of
        Inl e \<Rightarrow> ([], Some e)
      | Inr m \<Rightarrow>
          (case v of
             JArr xs \<Rightarrow> for_each f xs
           | _ \<Rightarrow> ([], Some (TypeError (path @ ''.forEach is not a function'')))))"

section \<open>The script\<close>

text \<open>\<^verbatim>\<open>${v.k}\<close> inside a template literal.\<close>

definition field_string :: "jsval \<Rightarrow> string \<Rightarrow> error + string" where
  "field_string v k = (case get v k of Inl e \<Rightarrow> Inl e | Inr x \<Rightarrow> to_string x)"

text \<open>\<^verbatim>\<open>optionInfo.k && optionInfo.k.length > 0\<close>\<close>

definition non_empty :: "jsval \<Rightarrow> string \<Rightarrow> error + bool" where
  "non_empty optionInfo k =
     (case get optionInfo k of
        Inl e \<Rightarrow> Inl e
      | Inr c \<Rightarrow>
          if \<not> truthy c then Inr False
          else (case get c ''length'' of Inl e \<Rightarrow> Inl e | Inr n \<Rightarrow> gt_zero n))"

text \<open>The four callbacks passed to \<^verbatim>\<open>forEach\<close> (lines 65, 76, 84 and 92).\<close>

definition simple_entry :: "jsval \<Rightarrow> error + printed" where
  "simple_entry opt =
     (case field_string opt ''groupName'' of
        Inl e \<Rightarrow> Inl e
      | Inr g \<Rightarrow>
          (case field_string opt ''name'' of
             Inl e \<Rightarrow> Inl e
           | Inr n \<Rightarrow>
               (case field_string opt ''id'' of
                  Inl e \<Rightarrow> Inl e
                | Inr i \<Rightarrow> Inr (SimpleEntry g n i))))"

definition combination_entry :: "jsval \<Rightarrow> error + printed" where
  "combination_entry combo =
     (case field_string combo ''optionName'' of
        Inl e \<Rightarrow> Inl e
      | Inr n \<Rightarrow>
          (case field_string combo ''id'' of
             Inl e \<Rightarrow> Inl e
           | Inr i \<Rightarrow>
               (case field_string combo ''stockQuantity'' of
                  Inl e \<Rightarrow> Inl e
                | Inr q \<Rightarrow> Inr (CombinationEntry n i q))))"

definition custom_entry :: "jsval \<Rightarrow> error + printed" where
  "custom_entry custom =
     (case field_string custom ''groupName'' of
        Inl e \<Rightarrow> Inl e
      | Inr g \<Rightarrow>
          (case field_string custom ''inputLimit'' of
             Inl e \<Rightarrow> Inl e
           | Inr l \<Rightarrow> Inr (CustomEntry g l)))"

text \<open>\<^verbatim>\<open>std.optionName || std.standardOptionName\<close>\<close>

definition standard_name :: "jsval \<Rightarrow> error + jsval" where
  "standard_name std =
     (case get std ''optionName'' of
        Inl e \<Rightarrow> Inl e
      | Inr a \<Rightarrow> if truthy a then Inr a else get std ''standardOptionName'')"

definition standard_entry :: "jsval \<Rightarrow> error + printed" where
  "standard_entry std =
     (case standard_name std of
        Inl e \<Rightarrow> Inl e
      | Inr v \<Rightarrow>
          (case to_string v of
             Inl e \<Rightarrow> Inl e
           | Inr n \<Rightarrow>
               (case field_string std ''id'' of
                  Inl e \<Rightarrow> Inl e
                | Inr i \<Rightarrow> Inr (StandardEntry n i))))"

text \<open>Lines 62 to 67.\<close>

definition simple_section :: "jsval \<Rightarrow> effect" where
  "simple_section optionInfo =
     if_then (non_empty optionInfo ''optionSimple'')
       (then_do ([Log SimpleHeader], None)
          (case get optionInfo ''optionSimple'' of
             Inl e \<Rightarrow> ([], Some e)
           | Inr c \<Rightarrow> forEach ''optionInfo.optionSimple'' c simple_entry))"

text \<open>
  Lines 70 to 78; \<^verbatim>\<open>optionInfo.optionCombinationGroupNames || []\<close> is joined and printed
  before the loop over the combinations.
\<close>

definition group_names_line :: "jsval \<Rightarrow> error + printed" where
  "group_names_line optionInfo =
     (case get optionInfo ''optionCombinationGroupNames'' of
        Inl e \<Rightarrow> Inl e
      | Inr g \<Rightarrow>
          (case join (if truthy g then g else JArr []) '', '' of
             Inl e \<Rightarrow> Inl e
           | Inr s \<Rightarrow> Inr (GroupNames s)))"

definition combination_section :: "jsval \<Rightarrow> effect" where
  "combination_section optionInfo =
     if_then (non_empty optionInfo ''optionCombinations'')
       (then_do ([Log CombinationHeader], None)
          (case group_names_line optionInfo of
             Inl e \<Rightarrow> ([], Some e)
           | Inr m \<Rightarrow>
               then_do ([Log m], None)
                 (case get optionInfo ''optionCombinations'' of
                    Inl e \<Rightarrow> ([], Some e)
                  | Inr c \<Rightarrow> forEach ''optionInfo.optionCombinations'' c combination_entry)))"

text \<open>Lines 81 to 86.\<close>

definition custom_section :: "jsval \<Rightarrow> effect" where
  "custom_section optionInfo =
     if_then (non_empty optionInfo ''optionCustom'')
       (then_do ([Log CustomHeader], None)
          (case get optionInfo ''optionCustom'' of
             Inl e \<Rightarrow> ([], Some e)
           | Inr c \<Rightarrow> forEach ''optionInfo.optionCustom'' c custom_entry))"

text \<open>Lines 89 to 94.\<close>

definition standard_section :: "jsval \<Rightarrow> effect" where
  "standard_section optionInfo =
     if_then (non_empty optionInfo ''optionStandards'')
       (then_do ([Log StandardHeader], None)
          (case get optionInfo ''optionStandards'' of
             Inl e \<Rightarrow> ([], Some e)
           | Inr c \<Rightarrow> forEach ''optionInfo.optionStandards'' c standard_entry))"

text \<open>Lines 61 to 94: the four blocks, one after the other.\<close>

definition sections :: "jsval \<Rightarrow> effect" where
  "sections optionInfo =
     then_do (simple_section optionInfo)
       (then_do (combination_section optionInfo)
          (then_do (custom_section optionInfo) (standard_section optionInfo)))"

text \<open>\<^verbatim>\<open>productDetail.originProduct?.detailAttribute?.optionInfo\<close> (line 48).\<close>

definition option_info :: "jsval \<Rightarrow> error + jsval" where
  "option_info productDetail =
     (case get productDetail ''originProduct'' of
        Inl e \<Rightarrow> Inl e
      | Inr originProduct \<Rightarrow>
          if nullish originProduct then Inr JUndefined
          else (case get originProduct ''detailAttribute'' of
                  Inl e \<Rightarrow> Inl e
                | Inr detailAttribute \<Rightarrow>
                    if nullish detailAttribute then Inr JUndefined
                    else get detailAttribute ''optionInfo''))"

text \<open>
  The body of the \<^verbatim>\<open>try\<close> block (lines 36 to 99): what it prints, the calls it makes to
  the client, and the error it throws, if any. A \<^verbatim>\<open>return\<close> ends it without an error.
\<close>

definition try_body :: "api \<Rightarrow> string \<Rightarrow> line list \<times> call list \<times> error option" where
  "try_body naverAPI productId =
     (case getChannelProductDetail naverAPI productId of
        Inl e \<Rightarrow> ([], [CallDetail productId], Some e)
      | Inr productDetail \<Rightarrow>
          if \<not> truthy productDetail then ([Err NotFound], [CallDetail productId], None)
          else
            (case field_string productDetail ''name'' of
               Inl e \<Rightarrow> ([], [CallDetail productId], Some e)
             | Inr name \<Rightarrow>
                 (case option_info productDetail of
                    Inl e \<Rightarrow> ([Log (ProductName name)], [CallDetail productId], Some e)
                  | Inr optionInfo \<Rightarrow>
                      if \<not> truthy optionInfo
                      then ([Log (ProductName name), Log NoOptionsNotice],
                            [CallDetail productId], None)
                      else
                        (case then_do
                                ([Log (ProductName name), Log RawHeader, Log (Json optionInfo),
                                  Log ResultsHeader], None)
                                (sections optionInfo) of
                           (ls, Some e) \<Rightarrow> (ls, [CallDetail productId], Some e)
                         | (ls, None) \<Rightarrow>
                             (case parseOptionInfo naverAPI optionInfo productId of
                                Inl e \<Rightarrow>
                                  (ls @ [Log BuiltinHeader],
                                   [CallDetail productId, CallParse optionInfo productId], Some e)
                              | Inr parsed \<Rightarrow>
                                  (ls @ [Log BuiltinHeader, Log (Json parsed)],
                                   [CallDetail productId, CallParse optionInfo productId],
                                   None))))))"

text \<open>
  An \<^verbatim>\<open>async\<close> function returns a promise: it is fulfilled when the body returns and
  rejected when an error leaves the body, which here means an error thrown before the
  \<^verbatim>\<open>try\<close> statement or inside its \<^verbatim>\<open>catch\<close> clause.
\<close>

datatype outcome = Returned | Rejected error

record run =
  outcome :: outcome
  console :: "line list"
  calls :: "call list"

definition config_error :: run where
  "config_error = \<lparr>outcome = Returned, console = [Err ConfigMissing], calls = []\<rparr>"

text \<open>
  \<^verbatim>\<open>getProductOptionExample(productId)\<close>, lines 20 to 104. \<open>env\<close> is \<^verbatim>\<open>process.env\<close>
  after the \<^verbatim>\<open>.env\<close> file has been loaded: a variable is a string or is not set.
\<close>

definition getProductOptionExample ::
  "(string \<Rightarrow> string option) \<Rightarrow> (string \<Rightarrow> string \<Rightarrow> error + api) \<Rightarrow> string \<Rightarrow> run" where
  "getProductOptionExample env NaverCommerceAPI productId =
     (case env ''NAVER_CLIENT_ID'' of
        None \<Rightarrow> config_error
      | Some CLIENT_ID \<Rightarrow>
          (case env ''NAVER_CLIENT_SECRET'' of
             None \<Rightarrow> config_error
           | Some CLIENT_SECRET \<Rightarrow>
               if CLIENT_ID = [] \<or> CLIENT_SECRET = [] then config_error
               else
                 (case NaverCommerceAPI CLIENT_ID CLIENT_SECRET of
                    Inl e \<Rightarrow>
                      \<lparr>outcome = Rejected e, console = [],
                       calls = [CallNew CLIENT_ID CLIENT_SECRET]\<rparr>
                  | Inr naverAPI \<Rightarrow>
                      (case try_body naverAPI productId of
                         (ls, cs, None) \<Rightarrow>
                           \<lparr>outcome = Returned, console = Log (Start productId) # ls,
                            calls = CallNew CLIENT_ID CLIENT_SECRET # cs\<rparr>
                       | (ls, cs, Some error) \<Rightarrow>
                           (case message error of
                              Inl e \<Rightarrow>
                                \<lparr>outcome = Rejected e, console = Log (Start productId) # ls,
                                 calls = CallNew CLIENT_ID CLIENT_SECRET # cs\<rparr>
                            | Inr m \<Rightarrow>
                                \<lparr>outcome = Returned,
                                 console = Log (Start productId) # ls @ [Err (Caught m)],
                                 calls = CallNew CLIENT_ID CLIENT_SECRET # cs\<rparr>)))))"

section \<open>Vocabulary of the properties\<close>

text \<open>Both credentials are set and neither is the empty string.\<close>

definition credentials :: "(string \<Rightarrow> string option) \<Rightarrow> string \<Rightarrow> string \<Rightarrow> bool" where
  "credentials env i s =
     (env ''NAVER_CLIENT_ID'' = Some i \<and> env ''NAVER_CLIENT_SECRET'' = Some s \<and> i \<noteq> [] \<and> s \<noteq> [])"

text \<open>A variant collection that is absent (missing or \<^verbatim>\<open>null\<close>) or an empty sequence.\<close>

definition absent_or_empty :: "jsval \<Rightarrow> bool" where
  "absent_or_empty v = (v = JUndefined \<or> v = JNull \<or> v = JArr [])"











text \<open>An error object of the language, as opposed to a value thrown by the client.\<close>

fun is_type_error :: "error \<Rightarrow> bool" where
  "is_type_error (TypeError m) = True"
| "is_type_error (Thrown v) = False"


fun is_parse :: "call \<Rightarrow> bool" where
  "is_parse (CallParse v p) = True"
| "is_parse c = False"

section \<open>Fixtures\<close>

text \<open>
  An environment with both credentials, a client whose detail request gives a fixed
  result, and product records around a given \<^verbatim>\<open>optionInfo\<close>.
\<close>

definition demo_env :: "string \<Rightarrow> string option" where
  "demo_env = [''NAVER_CLIENT_ID'' \<mapsto> ''client-id'', ''NAVER_CLIENT_SECRET'' \<mapsto> ''client-secret'']"

definition stub_api :: "error + jsval \<Rightarrow> api" where
  "stub_api detail =
     \<lparr>getChannelProductDetail = (\<lambda>productId. detail),
      parseOptionInfo = (\<lambda>optionInfo productId. Inr (JArr []))\<rparr>"

definition new_stub :: "error + jsval \<Rightarrow> string \<Rightarrow> string \<Rightarrow> error + api" where
  "new_stub detail clientId clientSecret = Inr (stub_api detail)"

definition product_with :: "jsval \<Rightarrow> jsval" where
  "product_with optionInfo =
     JObj [(''name'', JStr ''Shirt''),
           (''originProduct'', JObj [(''detailAttribute'', JObj [(''optionInfo'', optionInfo)])])]"

definition product_without_options :: jsval where
  "product_without_options =
     JObj [(''name'', JStr ''Shirt''), (''originProduct'', JObj [(''detailAttribute'', JObj [])])]"

definition combination_fixture :: jsval where
  "combination_fixture =
     JObj [(''optionCombinations'',
              JArr [JObj [(''optionName'', JStr ''Red/L''), (''id'', JStr ''c1''),
                          (''stockQuantity'', JNum 5)]]),
           (''optionCombinationGroupNames'', JArr [JStr ''Color'', JStr ''Size''])]"

definition blue_standard :: jsval where
  "blue_standard = JObj [(''standardOptionName'', JStr ''Blue''), (''id'', JStr ''s1'')]"

definition unnamed_standard :: jsval where
  "unnamed_standard =
     JObj [(''optionName'', JStr []), (''standardOptionName'', JStr ''Blue''),
           (''id'', JStr ''s1'')]"



text \<open>
  Failures: the error object of a failed request, a client whose parser throws, a
  constructor that throws.
\<close>

definition request_failed :: jsval where
  "request_failed = JObj [(''message'', JStr ''Request failed with status code 500'')]"

definition throwing_parser_api :: "jsval \<Rightarrow> api" where
  "throwing_parser_api detail =
     \<lparr>getChannelProductDetail = (\<lambda>productId. Inr detail),
      parseOptionInfo =
        (\<lambda>optionInfo productId.
           Inl (Thrown (JObj [(''message'', JStr ''Unsupported option type'')])))\<rparr>"

definition new_throwing_parser :: "jsval \<Rightarrow> string \<Rightarrow> string \<Rightarrow> error + api" where
  "new_throwing_parser detail clientId clientSecret = Inr (throwing_parser_api detail)"

definition failing_constructor :: "string \<Rightarrow> string \<Rightarrow> error + api" where
  "failing_constructor clientId clientSecret =
     Inl (Thrown (JObj [(''message'', JStr ''Invalid client credentials'')]))"

section \<open>Basic facts about the operations\<close>

lemma get_present: "\<not> nullish v \<Longrightarrow> get v k = Inr (own v k)"
  by (cases v) (simp_all add: get_def)

lemma truthy_present: "truthy v \<Longrightarrow> \<not> nullish v"
  by (cases v) simp_all




lemma non_empty_absent:
  "\<not> nullish optionInfo \<Longrightarrow> absent_or_empty (own optionInfo k) \<Longrightarrow>
     non_empty optionInfo k = Inr False"
  by (auto simp: non_empty_def get_present absent_or_empty_def get_def)






text \<open>With both credentials and a client, the script is the \<^verbatim>\<open>try\<close> statement.\<close>

lemma run_with_client:
  assumes "credentials env i s" and "NaverCommerceAPI i s = Inr naverAPI"
  shows "getProductOptionExample env NaverCommerceAPI productId =
           (case try_body naverAPI productId of
              (ls, cs, None) \<Rightarrow>
                \<lparr>outcome = Returned, console = Log (Start productId) # ls,
                 calls = CallNew i s # cs\<rparr>
            | (ls, cs, Some error) \<Rightarrow>
                (case message error of
                   Inl e \<Rightarrow>
                     \<lparr>outcome = Rejected e, console = Log (Start productId) # ls,
                      calls = CallNew i s # cs\<rparr>
                 | Inr m \<Rightarrow>
                     \<lparr>outcome = Returned,
                      console = Log (Start productId) # ls @ [Err (Caught m)],
                      calls = CallNew i s # cs\<rparr>))"
  using assms by (simp add: getProductOptionExample_def credentials_def)

lemma demo_credentials: "credentials demo_env ''client-id'' ''client-secret''"
  by (simp add: credentials_def demo_env_def)

section \<open>The guards before the report\<close>

text \<open>
  Claim C3. If \<^verbatim>\<open>NAVER_CLIENT_ID\<close> or \<^verbatim>\<open>NAVER_CLIENT_SECRET\<close> is missing from the
  environment, the script prints the configuration error with \<^verbatim>\<open>console.error\<close> and
  returns: the promise is fulfilled, nothing else is printed, and no call reaches the
  client, neither its constructor nor a request.
\<close>

theorem missing_credentials_config_error:
  assumes "env ''NAVER_CLIENT_ID'' = None \<or> env ''NAVER_CLIENT_SECRET'' = None"
  shows "getProductOptionExample env NaverCommerceAPI productId =
           \<lparr>outcome = Returned, console = [Err ConfigMissing], calls = []\<rparr>"
  using assms
  by (auto simp: getProductOptionExample_def config_error_def split: option.splits)

theorem missing_credentials_config_error_witness:
  "([''NAVER_CLIENT_SECRET'' \<mapsto> ''client-secret''] ''NAVER_CLIENT_ID'' = None
      \<or> [''NAVER_CLIENT_SECRET'' \<mapsto> ''client-secret''] ''NAVER_CLIENT_SECRET'' = None)
   \<and> getProductOptionExample [''NAVER_CLIENT_SECRET'' \<mapsto> ''client-secret'']
        (new_stub (Inr JNull)) ''1234567890'' =
      \<lparr>outcome = Returned, console = [Err ConfigMissing], calls = []\<rparr>"
proof -
  have h: "[''NAVER_CLIENT_SECRET'' \<mapsto> ''client-secret''] ''NAVER_CLIENT_ID'' = None
      \<or> [''NAVER_CLIENT_SECRET'' \<mapsto> ''client-secret''] ''NAVER_CLIENT_SECRET'' = None"
    by simp
  from h missing_credentials_config_error [OF h] show ?thesis by blast
qed

text \<open>
  Claim C10. A credential that is set to the empty string is falsy, so the script behaves
  as it does when the credentials are absent: it prints the configuration error and
  returns, and no client is constructed.
\<close>

theorem empty_credentials_config_error:
  assumes "env ''NAVER_CLIENT_ID'' = Some [] \<or> env ''NAVER_CLIENT_SECRET'' = Some []"
  shows "getProductOptionExample env NaverCommerceAPI productId =
           \<lparr>outcome = Returned, console = [Err ConfigMissing], calls = []\<rparr>
       \<and> getProductOptionExample env NaverCommerceAPI productId =
           getProductOptionExample (\<lambda>v. None) NaverCommerceAPI productId"
  using assms
  by (auto simp: getProductOptionExample_def config_error_def split: option.splits)

theorem empty_credentials_config_error_witness:
  "(demo_env(''NAVER_CLIENT_SECRET'' \<mapsto> [])) ''NAVER_CLIENT_SECRET'' = Some []
   \<and> getProductOptionExample (demo_env(''NAVER_CLIENT_SECRET'' \<mapsto> []))
        (new_stub (Inr JNull)) ''1234567890'' =
      \<lparr>outcome = Returned, console = [Err ConfigMissing], calls = []\<rparr>"
proof -
  have h: "(demo_env(''NAVER_CLIENT_SECRET'' \<mapsto> [])) ''NAVER_CLIENT_SECRET'' = Some []"
    by simp
  then have "(demo_env(''NAVER_CLIENT_SECRET'' \<mapsto> [])) ''NAVER_CLIENT_ID'' = Some []
      \<or> (demo_env(''NAVER_CLIENT_SECRET'' \<mapsto> [])) ''NAVER_CLIENT_SECRET'' = Some []" ..
  from h empty_credentials_config_error [OF this] show ?thesis by blast
qed

text \<open>
  Claim C4. When \<^verbatim>\<open>getChannelProductDetail\<close> returns \<^verbatim>\<open>null\<close>, or any other empty
  result (\<^verbatim>\<open>undefined\<close>, an empty string: a falsy value), the script prints the guidance
  message and returns. The console holds the start line and the guidance message only:
  no property of the result is read, so no \<^verbatim>\<open>TypeError\<close> is caught and reported, and the
  parser is not called.
\<close>

theorem null_detail_not_found:
  assumes "credentials env i s" and "NaverCommerceAPI i s = Inr naverAPI"
    and "getChannelProductDetail naverAPI productId = Inr productDetail"
    and "\<not> truthy productDetail"
  shows "getProductOptionExample env NaverCommerceAPI productId =
           \<lparr>outcome = Returned, console = [Log (Start productId), Err NotFound],
            calls = [CallNew i s, CallDetail productId]\<rparr>"
  by (simp add: run_with_client [where NaverCommerceAPI = NaverCommerceAPI, OF assms(1,2)]
      try_body_def assms(3,4))

theorem null_detail_not_found_witness:
  "credentials demo_env ''client-id'' ''client-secret''
   \<and> new_stub (Inr JNull) ''client-id'' ''client-secret'' = Inr (stub_api (Inr JNull))
   \<and> getChannelProductDetail (stub_api (Inr JNull)) ''1234567890'' = Inr JNull
   \<and> \<not> truthy JNull
   \<and> getProductOptionExample demo_env (new_stub (Inr JNull)) ''1234567890'' =
       \<lparr>outcome = Returned, console = [Log (Start ''1234567890''), Err NotFound],
        calls = [CallNew ''client-id'' ''client-secret'', CallDetail ''1234567890'']\<rparr>"
proof -
  have a: "new_stub (Inr JNull) ''client-id'' ''client-secret'' = Inr (stub_api (Inr JNull))"
    by (simp add: new_stub_def)
  have b: "getChannelProductDetail (stub_api (Inr JNull)) ''1234567890'' = Inr JNull"
    by (simp add: stub_api_def)
  have c: "\<not> truthy JNull" by simp
  from demo_credentials a b c
    null_detail_not_found [where NaverCommerceAPI = "new_stub (Inr JNull)",
      OF demo_credentials a b c]
  show ?thesis by blast
qed

text \<open>
  Claim C5. When the fetched product has no \<^verbatim>\<open>optionInfo\<close> (the chain
  \<^verbatim>\<open>originProduct?.detailAttribute?.optionInfo\<close> gives \<^verbatim>\<open>undefined\<close>, or a falsy value),
  the script prints the product name and then the single notice that the product has no
  options, and returns. Nothing is reported as an error, no section is printed, and the
  parser is not called.
\<close>

theorem absent_option_info_notice:
  assumes "credentials env i s" and "NaverCommerceAPI i s = Inr naverAPI"
    and "getChannelProductDetail naverAPI productId = Inr productDetail"
    and "truthy productDetail"
    and "field_string productDetail ''name'' = Inr name"
    and "option_info productDetail = Inr optionInfo"
    and "\<not> truthy optionInfo"
  shows "getProductOptionExample env NaverCommerceAPI productId =
           \<lparr>outcome = Returned,
            console = [Log (Start productId), Log (ProductName name), Log NoOptionsNotice],
            calls = [CallNew i s, CallDetail productId]\<rparr>"
  by (simp add: run_with_client [where NaverCommerceAPI = NaverCommerceAPI, OF assms(1,2)]
      try_body_def assms(3-7))

theorem absent_option_info_notice_witness:
  "credentials demo_env ''client-id'' ''client-secret''
   \<and> option_info product_without_options = Inr JUndefined
   \<and> getProductOptionExample demo_env (new_stub (Inr product_without_options)) ''1234567890'' =
       \<lparr>outcome = Returned,
        console = [Log (Start ''1234567890''), Log (ProductName ''Shirt''), Log NoOptionsNotice],
        calls = [CallNew ''client-id'' ''client-secret'', CallDetail ''1234567890'']\<rparr>"
proof -
  have a: "new_stub (Inr product_without_options) ''client-id'' ''client-secret''
             = Inr (stub_api (Inr product_without_options))"
    by (simp add: new_stub_def)
  have b: "getChannelProductDetail (stub_api (Inr product_without_options)) ''1234567890''
             = Inr product_without_options"
    by (simp add: stub_api_def)
  have c: "truthy product_without_options" by (simp add: product_without_options_def)
  have d: "field_string product_without_options ''name'' = Inr ''Shirt''"
    by (simp add: product_without_options_def field_string_def get_def)
  have e: "option_info product_without_options = Inr JUndefined"
    by (simp add: product_without_options_def option_info_def get_def)
  have f: "\<not> truthy JUndefined" by simp
  from demo_credentials e
    absent_option_info_notice [where NaverCommerceAPI = "new_stub (Inr product_without_options)",
      OF demo_credentials a b c d e f]
  show ?thesis by blast
qed

section \<open>Failures and the delegated parser\<close>

text \<open>
  Every error the language raises in the \<^verbatim>\<open>try\<close> block, by a property read, a string
  conversion, a comparison or a method call, is a \<^verbatim>\<open>TypeError\<close> object.
\<close>

lemma get_error: "get v k = Inl e \<Longrightarrow> is_type_error e"
  by (auto simp: get_def split: if_splits)

lemma collect_error: "collect rs = Inl e \<Longrightarrow> Inl e \<in> set rs"
  by (induction rs) (auto split: sum.splits)

lemma to_string_error: "to_string v = Inl e \<Longrightarrow> is_type_error e"
proof (induction v arbitrary: e rule: to_string.induct)
  case (6 xs)
  from "6.prems" have "collect (map (\<lambda>x. if nullish x then Inr [] else to_string x) xs) = Inl e"
    by (simp split: sum.splits)
  then have "Inl e \<in> set (map (\<lambda>x. if nullish x then Inr [] else to_string x) xs)"
    by (rule collect_error)
  then obtain x where "x \<in> set xs" "\<not> nullish x" "to_string x = Inl e"
    by (auto split: if_splits)
  then show ?case by (rule "6.IH")
qed (auto split: option.splits)

lemma join_error: "join v sep = Inl e \<Longrightarrow> is_type_error e"
proof -
  assume a: "join v sep = Inl e"
  show ?thesis
  proof (cases v)
    case (JArr xs)
    with a have "to_string (JArr xs) = Inl e"
      by (simp add: join_def get_def split: sum.splits)
    then show ?thesis by (rule to_string_error)
  qed (use a in \<open>auto simp: join_def get_def\<close>)
qed

lemma gt_zero_error: "gt_zero v = Inl e \<Longrightarrow> is_type_error e"
  by (cases v) (auto simp del: to_string.simps split: sum.splits dest: to_string_error)

lemma field_string_error: "field_string v k = Inl e \<Longrightarrow> is_type_error e"
  by (auto simp: field_string_def split: sum.splits dest: get_error to_string_error)

lemma non_empty_error: "non_empty optionInfo k = Inl e \<Longrightarrow> is_type_error e"
  by (auto simp: non_empty_def split: sum.splits if_splits dest: get_error gt_zero_error)

lemma option_info_error: "option_info productDetail = Inl e \<Longrightarrow> is_type_error e"
  by (auto simp: option_info_def split: sum.splits if_splits dest: get_error)

lemma simple_entry_error: "simple_entry x = Inl e \<Longrightarrow> is_type_error e"
  by (auto simp: simple_entry_def split: sum.splits dest: field_string_error)

lemma combination_entry_error: "combination_entry x = Inl e \<Longrightarrow> is_type_error e"
  by (auto simp: combination_entry_def split: sum.splits dest: field_string_error)

lemma custom_entry_error: "custom_entry x = Inl e \<Longrightarrow> is_type_error e"
  by (auto simp: custom_entry_def split: sum.splits dest: field_string_error)

lemma standard_entry_error: "standard_entry x = Inl e \<Longrightarrow> is_type_error e"
  by (auto simp: standard_entry_def standard_name_def
      split: sum.splits if_splits dest: field_string_error get_error to_string_error)

lemma group_names_line_error: "group_names_line optionInfo = Inl e \<Longrightarrow> is_type_error e"
  by (auto simp: group_names_line_def split: sum.splits dest: get_error join_error)

lemma snd_then_do:
  "snd (then_do a b) = (case snd a of None \<Rightarrow> snd b | Some e \<Rightarrow> Some e)"
  by (cases a; cases b; cases "snd a") auto

lemma for_each_error: "snd (for_each f xs) = Some e \<Longrightarrow> \<exists>x. f x = Inl e"
  by (induction xs) (auto simp: snd_then_do split: sum.splits)

lemma forEach_error:
  assumes "\<And>x e. f x = Inl e \<Longrightarrow> is_type_error e" and "snd (forEach path c f) = Some e"
  shows "is_type_error e"
proof (cases "get c ''forEach''")
  case (Inl e')
  with assms(2) show ?thesis by (auto simp: forEach_def dest: get_error)
next
  case (Inr m)
  show ?thesis
  proof (cases c)
    case (JArr xs)
    with Inr assms(2) have "snd (for_each f xs) = Some e" by (simp add: forEach_def)
    then obtain x where "f x = Inl e" by (auto dest: for_each_error)
    then show ?thesis by (rule assms(1))
  qed (use Inr assms(2) in \<open>auto simp: forEach_def\<close>)
qed

lemma block_error:
  assumes "\<And>x e. f x = Inl e \<Longrightarrow> is_type_error e"
    and "snd (if_then (non_empty optionInfo k)
           (then_do ([Log h], None)
              (case get optionInfo k of
                 Inl e \<Rightarrow> ([], Some e)
               | Inr c \<Rightarrow> forEach path c f))) = Some e"
  shows "is_type_error e"
proof (cases "non_empty optionInfo k")
  case (Inl e')
  with assms(2) show ?thesis by (auto dest: non_empty_error)
next
  case (Inr b)
  show ?thesis
  proof (cases "get optionInfo k")
    case (Inl e')
    with Inr assms(2) have "e = e'" by (auto simp: snd_then_do split: if_splits)
    with Inl show ?thesis by (auto dest: get_error)
  next
    case c: (Inr c)
    with Inr assms(2) have "snd (forEach path c f) = Some e"
      by (auto simp: snd_then_do split: if_splits)
    with forEach_error [of f path c e] assms(1) show ?thesis by blast
  qed
qed

lemma combination_section_error:
  assumes "snd (combination_section optionInfo) = Some e"
  shows "is_type_error e"
proof (cases "non_empty optionInfo ''optionCombinations''")
  case (Inl e')
  with assms show ?thesis by (auto simp: combination_section_def dest: non_empty_error)
next
  case (Inr b)
  show ?thesis
  proof (cases "group_names_line optionInfo")
    case (Inl e')
    with Inr assms have "e = e'"
      by (auto simp: combination_section_def snd_then_do split: if_splits)
    with Inl show ?thesis by (auto dest: group_names_line_error)
  next
    case g: (Inr g)
    show ?thesis
    proof (cases "get optionInfo ''optionCombinations''")
      case (Inl e')
      with Inr g assms have "e = e'"
        by (auto simp: combination_section_def snd_then_do split: if_splits)
      with Inl show ?thesis by (auto dest: get_error)
    next
      case c: (Inr c)
      with Inr g assms
      have "snd (forEach ''optionInfo.optionCombinations'' c combination_entry) = Some e"
        by (auto simp: combination_section_def snd_then_do split: if_splits)
      with forEach_error [of combination_entry "''optionInfo.optionCombinations''" c e]
        combination_entry_error
      show ?thesis by blast
    qed
  qed
qed

lemma sections_error:
  assumes "snd (sections optionInfo) = Some e"
  shows "is_type_error e"
proof -
  have 1: "snd (simple_section optionInfo) = Some e \<Longrightarrow> is_type_error e"
    unfolding simple_section_def by (rule block_error [OF simple_entry_error])
  have 3: "snd (custom_section optionInfo) = Some e \<Longrightarrow> is_type_error e"
    unfolding custom_section_def by (rule block_error [OF custom_entry_error])
  have 4: "snd (standard_section optionInfo) = Some e \<Longrightarrow> is_type_error e"
    unfolding standard_section_def by (rule block_error [OF standard_entry_error])
  from assms show ?thesis
    by (auto simp: sections_def snd_then_do split: option.splits
        dest: 1 3 4 combination_section_error)
qed

text \<open>So an error that leaves the \<^verbatim>\<open>try\<close> block is such an object or comes from the client.\<close>

lemma then_do_prefix:
  "then_do (pre, None) eff = (ls, r) \<Longrightarrow> ls = pre @ fst eff \<and> r = snd eff"
  by (cases eff) auto

lemma try_body_error:
  assumes "try_body naverAPI productId = (ls, cs, Some e)"
  shows "is_type_error e \<or> getChannelProductDetail naverAPI productId = Inl e
         \<or> (\<exists>optionInfo. parseOptionInfo naverAPI optionInfo productId = Inl e)"
  using assms
  by (auto simp: try_body_def split: sum.splits if_splits prod.splits option.splits
      dest!: then_do_prefix dest: field_string_error option_info_error sections_error [OF sym])

lemma message_type_error: "is_type_error e \<Longrightarrow> \<exists>m. message e = Inr m"
  by (cases e) simp_all

lemma message_thrown: "\<not> nullish v \<Longrightarrow> message (Thrown v) = Inr (own v ''message'')"
  by (simp add: get_present)

text \<open>
  Claim C8, as the code has it. Let the client exist, and let a failure be raised inside
  the \<^verbatim>\<open>try\<close> statement with a thrown value other than \<^verbatim>\<open>null\<close> or \<^verbatim>\<open>undefined\<close>, so
  that reading its \<^verbatim>\<open>message\<close> gives a value. Whichever step raises it, the detail
  request, the line of the product name, the formatting of the sections or the delegated
  parser, the failure is caught: the promise is fulfilled, the lines printed before the
  failure stay, and the last line is the error line with the failure's message. The
  promise is fulfilled in every run in which the client exists and throws neither \<^verbatim>\<open>null\<close>
  nor \<^verbatim>\<open>undefined\<close>.
\<close>

theorem failures_caught:
  assumes "credentials env i s" and "NaverCommerceAPI i s = Inr naverAPI"
    and "message e = Inr m"
  shows "(getChannelProductDetail naverAPI productId = Inl e \<longrightarrow>
            getProductOptionExample env NaverCommerceAPI productId =
              \<lparr>outcome = Returned, console = [Log (Start productId), Err (Caught m)],
               calls = [CallNew i s, CallDetail productId]\<rparr>)
       \<and> (getChannelProductDetail naverAPI productId = Inr productDetail
            \<and> truthy productDetail \<and> field_string productDetail ''name'' = Inl e \<longrightarrow>
            getProductOptionExample env NaverCommerceAPI productId =
              \<lparr>outcome = Returned, console = [Log (Start productId), Err (Caught m)],
               calls = [CallNew i s, CallDetail productId]\<rparr>)
       \<and> (getChannelProductDetail naverAPI productId = Inr productDetail
            \<and> truthy productDetail \<and> field_string productDetail ''name'' = Inr name
            \<and> option_info productDetail = Inr optionInfo \<and> truthy optionInfo
            \<and> sections optionInfo = (ls, Some e) \<longrightarrow>
            getProductOptionExample env NaverCommerceAPI productId =
              \<lparr>outcome = Returned,
               console = [Log (Start productId), Log (ProductName name), Log RawHeader,
                          Log (Json optionInfo), Log ResultsHeader] @ ls @ [Err (Caught m)],
               calls = [CallNew i s, CallDetail productId]\<rparr>)
       \<and> (getChannelProductDetail naverAPI productId = Inr productDetail
            \<and> truthy productDetail \<and> field_string productDetail ''name'' = Inr name
            \<and> option_info productDetail = Inr optionInfo \<and> truthy optionInfo
            \<and> sections optionInfo = (ls, None)
            \<and> parseOptionInfo naverAPI optionInfo productId = Inl e \<longrightarrow>
            getProductOptionExample env NaverCommerceAPI productId =
              \<lparr>outcome = Returned,
               console = [Log (Start productId), Log (ProductName name), Log RawHeader,
                          Log (Json optionInfo), Log ResultsHeader] @ ls
                         @ [Log BuiltinHeader, Err (Caught m)],
               calls = [CallNew i s, CallDetail productId, CallParse optionInfo productId]\<rparr>)
       \<and> ((\<forall>v. getChannelProductDetail naverAPI productId = Inl (Thrown v) \<longrightarrow> \<not> nullish v)
            \<and> (\<forall>v x. parseOptionInfo naverAPI x productId = Inl (Thrown v) \<longrightarrow> \<not> nullish v) \<longrightarrow>
            outcome (getProductOptionExample env NaverCommerceAPI productId) = Returned)"
proof (intro conjI impI)
  note run = run_with_client [where NaverCommerceAPI = NaverCommerceAPI, OF assms(1,2)]
  show "getProductOptionExample env NaverCommerceAPI productId =
          \<lparr>outcome = Returned, console = [Log (Start productId), Err (Caught m)],
           calls = [CallNew i s, CallDetail productId]\<rparr>"
    if "getChannelProductDetail naverAPI productId = Inl e"
    using that assms(3) by (simp add: run try_body_def)
  show "getProductOptionExample env NaverCommerceAPI productId =
          \<lparr>outcome = Returned, console = [Log (Start productId), Err (Caught m)],
           calls = [CallNew i s, CallDetail productId]\<rparr>"
    if "getChannelProductDetail naverAPI productId = Inr productDetail
            \<and> truthy productDetail \<and> field_string productDetail ''name'' = Inl e"
    using that assms(3) by (simp add: run try_body_def)
  show "getProductOptionExample env NaverCommerceAPI productId =
          \<lparr>outcome = Returned,
           console = [Log (Start productId), Log (ProductName name), Log RawHeader,
                      Log (Json optionInfo), Log ResultsHeader] @ ls @ [Err (Caught m)],
           calls = [CallNew i s, CallDetail productId]\<rparr>"
    if "getChannelProductDetail naverAPI productId = Inr productDetail
            \<and> truthy productDetail \<and> field_string productDetail ''name'' = Inr name
            \<and> option_info productDetail = Inr optionInfo \<and> truthy optionInfo
            \<and> sections optionInfo = (ls, Some e)"
    using that assms(3) by (simp add: run try_body_def)
  show "getProductOptionExample env NaverCommerceAPI productId =
          \<lparr>outcome = Returned,
           console = [Log (Start productId), Log (ProductName name), Log RawHeader,
                      Log (Json optionInfo), Log ResultsHeader] @ ls
                     @ [Log BuiltinHeader, Err (Caught m)],
           calls = [CallNew i s, CallDetail productId, CallParse optionInfo productId]\<rparr>"
    if "getChannelProductDetail naverAPI productId = Inr productDetail
            \<and> truthy productDetail \<and> field_string productDetail ''name'' = Inr name
            \<and> option_info productDetail = Inr optionInfo \<and> truthy optionInfo
            \<and> sections optionInfo = (ls, None)
            \<and> parseOptionInfo naverAPI optionInfo productId = Inl e"
    using that assms(3) by (simp add: run try_body_def)
  show "outcome (getProductOptionExample env NaverCommerceAPI productId) = Returned"
    if c: "(\<forall>v. getChannelProductDetail naverAPI productId = Inl (Thrown v) \<longrightarrow> \<not> nullish v)
            \<and> (\<forall>v x. parseOptionInfo naverAPI x productId = Inl (Thrown v) \<longrightarrow> \<not> nullish v)"
  proof (cases "try_body naverAPI productId")
    case (fields ls' cs' r)
    show ?thesis
    proof (cases r)
      case None
      with fields show ?thesis by (simp add: run)
    next
      case (Some e')
      with fields have "is_type_error e' \<or> getChannelProductDetail naverAPI productId = Inl e'
         \<or> (\<exists>x. parseOptionInfo naverAPI x productId = Inl e')"
        by (auto dest: try_body_error)
      then have "\<exists>m'. message e' = Inr m'"
      proof (elim disjE exE)
        assume "is_type_error e'"
        then show ?thesis by (rule message_type_error)
      next
        assume f: "getChannelProductDetail naverAPI productId = Inl e'"
        show ?thesis
        proof (cases e')
          case (TypeError t)
          then show ?thesis by simp
        next
          case (Thrown v)
          with f c have "\<not> nullish v" by blast
          with Thrown show ?thesis by (simp add: get_present)
        qed
      next
        fix x assume f: "parseOptionInfo naverAPI x productId = Inl e'"
        show ?thesis
        proof (cases e')
          case (TypeError t)
          then show ?thesis by simp
        next
          case (Thrown v)
          with f c have "\<not> nullish v" by blast
          with Thrown show ?thesis by (simp add: get_present)
        qed
      qed
      with fields Some show ?thesis by (auto simp: run)
    qed
  qed
qed

theorem failures_caught_witness:
  "credentials demo_env ''client-id'' ''client-secret''
   \<and> message (Thrown request_failed) = Inr (JStr ''Request failed with status code 500'')
   \<and> getProductOptionExample demo_env (new_stub (Inl (Thrown request_failed))) ''1234567890'' =
       \<lparr>outcome = Returned,
        console = [Log (Start ''1234567890''),
                   Err (Caught (JStr ''Request failed with status code 500''))],
        calls = [CallNew ''client-id'' ''client-secret'', CallDetail ''1234567890'']\<rparr>
   \<and> sections (JObj [(''optionSimple'', JArr [JNull])]) =
       ([Log SimpleHeader],
        Some (TypeError (''Cannot read properties of null (reading '' @ quoted ''groupName''
                          @ '')'')))
   \<and> getProductOptionExample demo_env
        (new_stub (Inr (product_with (JObj [(''optionSimple'', JArr [JNull])])))) ''1234567890'' =
       \<lparr>outcome = Returned,
        console = [Log (Start ''1234567890''), Log (ProductName ''Shirt''), Log RawHeader,
                   Log (Json (JObj [(''optionSimple'', JArr [JNull])])), Log ResultsHeader,
                   Log SimpleHeader,
                   Err (Caught (JStr (''Cannot read properties of null (reading ''
                                       @ quoted ''groupName'' @ '')'')))],
        calls = [CallNew ''client-id'' ''client-secret'', CallDetail ''1234567890'']\<rparr>
   \<and> getProductOptionExample demo_env
        (new_throwing_parser (product_with combination_fixture)) ''1234567890'' =
       \<lparr>outcome = Returned,
        console = [Log (Start ''1234567890''), Log (ProductName ''Shirt''), Log RawHeader,
                   Log (Json combination_fixture), Log ResultsHeader,
                   Log CombinationHeader, Log (GroupNames ''Color, Size''),
                   Log (CombinationEntry ''Red/L'' ''c1'' ''5''),
                   Log BuiltinHeader, Err (Caught (JStr ''Unsupported option type''))],
        calls = [CallNew ''client-id'' ''client-secret'', CallDetail ''1234567890'',
                 CallParse combination_fixture ''1234567890'']\<rparr>"
proof -
  let ?pid = "''1234567890''"
  let ?r = "Inl (Thrown request_failed) :: error + jsval"
  have m1: "message (Thrown request_failed) = Inr (JStr ''Request failed with status code 500'')"
    by (simp add: request_failed_def get_def)
  have a1: "new_stub ?r ''client-id'' ''client-secret'' = Inr (stub_api ?r)"
    by (simp add: new_stub_def)
  have b1: "getChannelProductDetail (stub_api ?r) ?pid = ?r"
    by (simp add: stub_api_def)
  from failures_caught [where NaverCommerceAPI = "new_stub ?r" and productId = ?pid,
      OF demo_credentials a1 m1] b1
  have 1: "getProductOptionExample demo_env (new_stub ?r) ?pid =
       \<lparr>outcome = Returned,
        console = [Log (Start ?pid), Err (Caught (JStr ''Request failed with status code 500''))],
        calls = [CallNew ''client-id'' ''client-secret'', CallDetail ?pid]\<rparr>"
    by blast
  let ?oi = "JObj [(''optionSimple'', JArr [JNull])]"
  let ?d = "product_with ?oi"
  let ?t = "TypeError (''Cannot read properties of null (reading '' @ quoted ''groupName''
                          @ '')'')"
  have m2: "message ?t = Inr (JStr (''Cannot read properties of null (reading ''
                                       @ quoted ''groupName'' @ '')''))"
    by simp
  have a2: "new_stub (Inr ?d) ''client-id'' ''client-secret'' = Inr (stub_api (Inr ?d))"
    by (simp add: new_stub_def)
  have b2: "getChannelProductDetail (stub_api (Inr ?d)) ?pid = Inr ?d"
    by (simp add: stub_api_def)
  have c2: "truthy ?d" by (simp add: product_with_def)
  have d2: "field_string ?d ''name'' = Inr ''Shirt''"
    by (simp add: product_with_def field_string_def get_def)
  have e2: "option_info ?d = Inr ?oi"
    by (simp add: product_with_def option_info_def get_def)
  have f2: "truthy ?oi" by simp
  have s2: "sections ?oi = ([Log SimpleHeader], Some ?t)"
    by (simp add: sections_def simple_section_def non_empty_def get_def forEach_def
        simple_entry_def field_string_def)
  from failures_caught [where NaverCommerceAPI = "new_stub (Inr ?d)" and productId = ?pid,
      OF demo_credentials a2 m2] b2 c2 d2 e2 f2 s2
  have 2: "getProductOptionExample demo_env (new_stub (Inr ?d)) ?pid =
       \<lparr>outcome = Returned,
        console = [Log (Start ?pid), Log (ProductName ''Shirt''), Log RawHeader,
                   Log (Json ?oi), Log ResultsHeader] @ [Log SimpleHeader]
                  @ [Err (Caught (JStr (''Cannot read properties of null (reading ''
                                       @ quoted ''groupName'' @ '')'')))],
        calls = [CallNew ''client-id'' ''client-secret'', CallDetail ?pid]\<rparr>"
    by blast
  let ?c = "product_with combination_fixture"
  let ?p = "Thrown (JObj [(''message'', JStr ''Unsupported option type'')])"
  have m3: "message ?p = Inr (JStr ''Unsupported option type'')"
    by (simp add: get_def)
  have a3: "new_throwing_parser ?c ''client-id'' ''client-secret'' = Inr (throwing_parser_api ?c)"
    by (simp add: new_throwing_parser_def)
  have b3: "getChannelProductDetail (throwing_parser_api ?c) ?pid = Inr ?c"
    by (simp add: throwing_parser_api_def)
  have c3: "truthy ?c" by (simp add: product_with_def)
  have d3: "field_string ?c ''name'' = Inr ''Shirt''"
    by (simp add: product_with_def field_string_def get_def)
  have e3: "option_info ?c = Inr combination_fixture"
    by (simp add: product_with_def option_info_def get_def combination_fixture_def)
  have f3: "truthy combination_fixture" by (simp add: combination_fixture_def)
  have s3: "sections combination_fixture =
          ([Log CombinationHeader, Log (GroupNames ''Color, Size''),
            Log (CombinationEntry ''Red/L'' ''c1'' ''5'')], None)"
    by code_simp
  have p3: "parseOptionInfo (throwing_parser_api ?c) combination_fixture ?pid = Inl ?p"
    by (simp add: throwing_parser_api_def)
  from failures_caught [where NaverCommerceAPI = "new_throwing_parser ?c" and productId = ?pid,
      OF demo_credentials a3 m3] b3 c3 d3 e3 f3 s3 p3
  have 3: "getProductOptionExample demo_env (new_throwing_parser ?c) ?pid =
       \<lparr>outcome = Returned,
        console = [Log (Start ?pid), Log (ProductName ''Shirt''), Log RawHeader,
                   Log (Json combination_fixture), Log ResultsHeader]
                  @ [Log CombinationHeader, Log (GroupNames ''Color, Size''),
                     Log (CombinationEntry ''Red/L'' ''c1'' ''5'')]
                  @ [Log BuiltinHeader, Err (Caught (JStr ''Unsupported option type''))],
        calls = [CallNew ''client-id'' ''client-secret'', CallDetail ?pid,
                 CallParse combination_fixture ?pid]\<rparr>"
    by blast
  from demo_credentials m1 1 s2 2 3 show ?thesis by simp
qed

text \<open>
  Claim C8 as stated fails in two ways. When the detail request rejects with \<^verbatim>\<open>null\<close>,
  reading \<^verbatim>\<open>error.message\<close> throws inside the \<^verbatim>\<open>catch\<close> clause: nothing is logged and
  the promise is rejected. And the constructor of the client runs before the \<^verbatim>\<open>try\<close>
  statement, so an error it throws is not caught either.
\<close>

theorem failures_not_caught:
  "getProductOptionExample demo_env (new_stub (Inl (Thrown JNull))) ''1234567890'' =
     \<lparr>outcome = Rejected (TypeError (''Cannot read properties of null (reading ''
                                      @ quoted ''message'' @ '')'')),
      console = [Log (Start ''1234567890'')],
      calls = [CallNew ''client-id'' ''client-secret'', CallDetail ''1234567890'']\<rparr>
   \<and> getProductOptionExample demo_env failing_constructor ''1234567890'' =
     \<lparr>outcome = Rejected (Thrown (JObj [(''message'', JStr ''Invalid client credentials'')])),
      console = [],
      calls = [CallNew ''client-id'' ''client-secret'']\<rparr>"
  by (simp add: getProductOptionExample_def demo_env_def new_stub_def stub_api_def try_body_def
      failing_constructor_def get_def)

text \<open>
  Claim C9. In every run \<^verbatim>\<open>parseOptionInfo\<close> is called at most once, and a call is made
  only with the product identifier of the run and an \<^verbatim>\<open>optionInfo\<close> that is truthy: it is
  the value read from a truthy product record that a client, built from credentials that
  are both set, returned. Each earlier guard has returned before the call.
\<close>

theorem parser_called_once:
  "length (filter is_parse (calls (getProductOptionExample env NaverCommerceAPI productId))) \<le> 1
   \<and> (\<forall>v p. CallParse v p \<in> set (calls (getProductOptionExample env NaverCommerceAPI productId)) \<longrightarrow>
         truthy v \<and> p = productId \<and>
         (\<exists>i s naverAPI productDetail.
             credentials env i s \<and> NaverCommerceAPI i s = Inr naverAPI \<and>
             getChannelProductDetail naverAPI productId = Inr productDetail \<and>
             truthy productDetail \<and> option_info productDetail = Inr v))"
  by (auto simp: getProductOptionExample_def credentials_def try_body_def config_error_def
      split: option.splits prod.splits sum.splits if_splits)

theorem parser_called_once_witness:
  "CallParse combination_fixture ''1234567890'' \<in> set (calls
      (getProductOptionExample demo_env (new_stub (Inr (product_with combination_fixture)))
         ''1234567890''))
   \<and> truthy combination_fixture
   \<and> length (filter is_parse (calls
      (getProductOptionExample demo_env (new_stub (Inr (product_with combination_fixture)))
         ''1234567890''))) \<le> 1"
proof -
  let ?run = "getProductOptionExample demo_env (new_stub (Inr (product_with combination_fixture)))
         ''1234567890''"
  have "sections combination_fixture =
          ([Log CombinationHeader, Log (GroupNames ''Color, Size''),
            Log (CombinationEntry ''Red/L'' ''c1'' ''5'')], None)"
    by code_simp
  then have "calls ?run = [CallNew ''client-id'' ''client-secret'', CallDetail ''1234567890'',
               CallParse combination_fixture ''1234567890'']"
    by (simp add: getProductOptionExample_def demo_env_def new_stub_def
      stub_api_def try_body_def product_with_def field_string_def get_def option_info_def
      combination_fixture_def)
  then have m: "CallParse combination_fixture ''1234567890'' \<in> set (calls ?run)" by simp
  from parser_called_once [of demo_env "new_stub (Inr (product_with combination_fixture))"
      "''1234567890''"] m
  show ?thesis by blast
qed

section \<open>The four sections of the report\<close>



lemma section_absent:
  "\<not> nullish optionInfo \<Longrightarrow> absent_or_empty (own optionInfo k) \<Longrightarrow>
     if_then (non_empty optionInfo k) body = ([], None)"
  by (simp add: non_empty_absent)

text \<open>
  Claim C1, as the code has it. For every \<^verbatim>\<open>optionInfo\<close> that is present and in which
  all four variant collections are absent or empty, the formatter prints no section header
  and no entry line. It does not print the notice that the product has no options either:
  after the raw data and the results header it goes on to the header of the delegated
  parser and that parser's result.
\<close>

theorem empty_collections_no_sections:
  assumes "getChannelProductDetail naverAPI productId = Inr productDetail"
    and "truthy productDetail"
    and "field_string productDetail ''name'' = Inr name"
    and "option_info productDetail = Inr optionInfo"
    and "truthy optionInfo"
    and "absent_or_empty (own optionInfo ''optionSimple'')"
    and "absent_or_empty (own optionInfo ''optionCombinations'')"
    and "absent_or_empty (own optionInfo ''optionCustom'')"
    and "absent_or_empty (own optionInfo ''optionStandards'')"
  shows "sections optionInfo = ([], None) \<and>
         fst (try_body naverAPI productId) =
           [Log (ProductName name), Log RawHeader, Log (Json optionInfo), Log ResultsHeader,
            Log BuiltinHeader]
           @ (case parseOptionInfo naverAPI optionInfo productId of
                Inl e \<Rightarrow> []
              | Inr parsed \<Rightarrow> [Log (Json parsed)])"
proof -
  from assms(5) have p: "\<not> nullish optionInfo" by (rule truthy_present)
  have s: "sections optionInfo = ([], None)"
    by (simp add: sections_def simple_section_def combination_section_def custom_section_def
        standard_section_def section_absent [OF p] assms(6-9))
  show ?thesis
    by (simp add: s try_body_def assms(1-5) split: sum.split)
qed

theorem empty_collections_no_sections_witness:
  "truthy (JObj [(''optionSimple'', JArr []), (''optionCustom'', JNull)])
   \<and> absent_or_empty (own (JObj [(''optionSimple'', JArr []), (''optionCustom'', JNull)]) ''optionSimple'')
   \<and> absent_or_empty (own (JObj [(''optionSimple'', JArr []), (''optionCustom'', JNull)]) ''optionCombinations'')
   \<and> absent_or_empty (own (JObj [(''optionSimple'', JArr []), (''optionCustom'', JNull)]) ''optionCustom'')
   \<and> absent_or_empty (own (JObj [(''optionSimple'', JArr []), (''optionCustom'', JNull)]) ''optionStandards'')
   \<and> sections (JObj [(''optionSimple'', JArr []), (''optionCustom'', JNull)]) = ([], None)
   \<and> fst (try_body
            (stub_api (Inr (product_with (JObj [(''optionSimple'', JArr []), (''optionCustom'', JNull)]))))
            ''1234567890'') =
       [Log (ProductName ''Shirt''), Log RawHeader,
        Log (Json (JObj [(''optionSimple'', JArr []), (''optionCustom'', JNull)])),
        Log ResultsHeader, Log BuiltinHeader, Log (Json (JArr []))]"
proof -
  let ?oi = "JObj [(''optionSimple'', JArr []), (''optionCustom'', JNull)]"
  let ?api = "stub_api (Inr (product_with ?oi))"
  have a: "getChannelProductDetail ?api ''1234567890'' = Inr (product_with ?oi)"
    by (simp add: stub_api_def)
  have b: "truthy (product_with ?oi)" by (simp add: product_with_def)
  have c: "field_string (product_with ?oi) ''name'' = Inr ''Shirt''"
    by (simp add: product_with_def field_string_def get_def)
  have d: "option_info (product_with ?oi) = Inr ?oi"
    by (simp add: product_with_def option_info_def get_def)
  have e: "truthy ?oi" by simp
  have f: "absent_or_empty (own ?oi ''optionSimple'')" by (simp add: absent_or_empty_def)
  have g: "absent_or_empty (own ?oi ''optionCombinations'')" by (simp add: absent_or_empty_def)
  have h: "absent_or_empty (own ?oi ''optionCustom'')" by (simp add: absent_or_empty_def)
  have i: "absent_or_empty (own ?oi ''optionStandards'')" by (simp add: absent_or_empty_def)
  have p: "parseOptionInfo ?api ?oi ''1234567890'' = Inr (JArr [])"
    by (simp add: stub_api_def)
  from empty_collections_no_sections [OF a b c d e f g h i] e f g h i
  show ?thesis by (simp add: p)
qed

text \<open>
  Claim C1 as stated fails: for the \<^verbatim>\<open>optionInfo\<close> \<^verbatim>\<open>{}\<close>, in which all four collections
  are absent, the console never shows the notice; it shows the raw data, the results header
  and the parser's output.
\<close>

theorem empty_option_info_no_notice:
  "absent_or_empty (own (JObj []) ''optionSimple'')
   \<and> absent_or_empty (own (JObj []) ''optionCombinations'')
   \<and> absent_or_empty (own (JObj []) ''optionCustom'')
   \<and> absent_or_empty (own (JObj []) ''optionStandards'')
   \<and> console (getProductOptionExample demo_env (new_stub (Inr (product_with (JObj []))))
        ''1234567890'') =
       [Log (Start ''1234567890''), Log (ProductName ''Shirt''), Log RawHeader,
        Log (Json (JObj [])), Log ResultsHeader, Log BuiltinHeader, Log (Json (JArr []))]
   \<and> Log NoOptionsNotice \<notin> set (console
        (getProductOptionExample demo_env (new_stub (Inr (product_with (JObj []))))
           ''1234567890''))"
  by (simp add: absent_or_empty_def getProductOptionExample_def demo_env_def new_stub_def
      stub_api_def try_body_def product_with_def field_string_def get_def option_info_def
      sections_def simple_section_def combination_section_def custom_section_def
      standard_section_def non_empty_def)













subsection \<open>The group names of the combinations\<close>











subsection \<open>The display name of a standard option\<close>

text \<open>
  Claim C2, as the code has it. For every entry of \<^verbatim>\<open>optionStandards\<close> the displayed name
  is \<^verbatim>\<open>optionName\<close> when that is truthy (present and not \<^verbatim>\<open>null\<close>, \<^verbatim>\<open>false\<close>, \<^verbatim>\<open>0\<close> or the
  empty string) and \<^verbatim>\<open>standardOptionName\<close> otherwise: the first truthy one wins. In
  particular the entry with \<^verbatim>\<open>standardOptionName\<close> \<^verbatim>\<open>Blue\<close> and no \<^verbatim>\<open>optionName\<close> displays
  \<^verbatim>\<open>Blue\<close>.
\<close>

theorem standard_name_first_truthy:
  "(\<not> nullish std \<longrightarrow>
      standard_name std =
        Inr (if truthy (own std ''optionName'') then own std ''optionName''
             else own std ''standardOptionName''))
   \<and> (\<not> nullish std
        \<and> to_string (if truthy (own std ''optionName'') then own std ''optionName''
                      else own std ''standardOptionName'') = Inr n
        \<and> to_string (own std ''id'') = Inr i \<longrightarrow>
      standard_entry std = Inr (StandardEntry n i))
   \<and> own blue_standard ''optionName'' = JUndefined
   \<and> standard_entry blue_standard = Inr (StandardEntry ''Blue'' ''s1'')"
  by (simp add: standard_name_def standard_entry_def field_string_def get_present
      blue_standard_def get_def)

theorem standard_name_first_truthy_witness:
  "\<not> nullish unnamed_standard
   \<and> standard_name unnamed_standard = Inr (JStr ''Blue'')
   \<and> standard_entry unnamed_standard = Inr (StandardEntry ''Blue'' ''s1'')"
proof -
  have a: "\<not> nullish unnamed_standard" by (simp add: unnamed_standard_def)
  have b: "\<not> truthy (own unnamed_standard ''optionName'')"
    by (simp add: unnamed_standard_def)
  have c: "own unnamed_standard ''standardOptionName'' = JStr ''Blue''"
    by (simp add: unnamed_standard_def)
  have d: "to_string (own unnamed_standard ''id'') = Inr ''s1''"
    by (simp add: unnamed_standard_def)
  from standard_name_first_truthy [of unnamed_standard "''Blue''" "''s1''"] a b c d
  show ?thesis by simp
qed

text \<open>
  Claim C2 as stated fails: an entry whose \<^verbatim>\<open>optionName\<close> is present and not \<^verbatim>\<open>null\<close>,
  namely the empty string, displays its \<^verbatim>\<open>standardOptionName\<close> and not its
  \<^verbatim>\<open>optionName\<close>.
\<close>

theorem empty_option_name_falls_back:
  "own unnamed_standard ''optionName'' = JStr []
   \<and> \<not> nullish (own unnamed_standard ''optionName'')
   \<and> standard_entry unnamed_standard = Inr (StandardEntry ''Blue'' ''s1'')
   \<and> standard_entry unnamed_standard \<noteq> Inr (StandardEntry [] ''s1'')"
  by (simp add: unnamed_standard_def standard_entry_def standard_name_def field_string_def
      get_def)

end
